theory Spec2Isabelle
  imports Main "HOL-Library.Word"
begin

section \<open>Values shared by both source files\<close>

type_synonym bytes = "8 word list"
type_synonym int64 = "64 word"

text \<open>
  Go \<open>error\<close> values. The constructor records where the value was made: by the byte
  store, by the serializer (marshal or unmarshal), or by \<open>errors.New\<close>. The method
  \<open>Error()\<close> gives the message.
\<close>

datatype error =
    StoreError string
  | EncodeError string
  | DecodeError string
  | ErrorsNew string

fun Error :: "error \<Rightarrow> string" where
  "Error (StoreError m) = m"
| "Error (EncodeError m) = m"
| "Error (DecodeError m) = m"
| "Error (ErrorsNew m) = m"

text \<open>
  What a call leaves behind outside its return values: a call of the byte store
  (\<open>GetValue\<close>, \<open>Put\<close>, \<open>Delete\<close>) or a line written by \<open>fmt.Printf\<close>. Every
  function below returns the events it caused, oldest first.
\<close>

datatype event =
    StoreGet string
  | StorePut string bytes
  | StoreDelete string
  | Printed string

section \<open>proto_broker_impl.go\<close>

text \<open>
  \<open>keyval.PutOption\<close>, \<open>keyval.BytesBroker\<close> and \<open>keyval.Serializer\<close> are declared
  in package \<open>keyval\<close>; the wrapper only calls them. A broker and a serializer are
  therefore parameters: records of the methods that the code calls, each returning what
  the Go method returns (several results as a tuple, \<open>nil\<close> error as \<open>None\<close>).
  \<open>Unmarshal\<close> writes into the message it is given, so it returns the message
  afterwards.
\<close>

typedecl PutOption

record BytesBroker =
  brokerPut :: "string \<Rightarrow> bytes \<Rightarrow> PutOption list \<Rightarrow> error option"
  brokerGetValue :: "string \<Rightarrow> bytes \<times> bool \<times> int64 \<times> error option"
  brokerDelete :: "string \<Rightarrow> bool \<times> error option"

record 'm Serializer =
  Marshal :: "'m \<Rightarrow> bytes \<times> error option"
  Unmarshal :: "bytes \<Rightarrow> 'm \<Rightarrow> 'm \<times> error option"

record 'm ProtoWrapper =
  broker :: BytesBroker
  serializer :: "'m Serializer"

text \<open>\<open>putProtoInternal\<close>: the result of \<open>broker.Put\<close> is not looked at.\<close>

definition putProtoInternal ::
  "BytesBroker \<Rightarrow> 'm Serializer \<Rightarrow> string \<Rightarrow> 'm \<Rightarrow> PutOption list
     \<Rightarrow> error option \<times> event list" where
  "putProtoInternal b s key val opts =
     (case Marshal s val of
        (binData, Some e) \<Rightarrow> (Some e, [])
      | (binData, None) \<Rightarrow>
          (let dropped = brokerPut b key binData opts
           in (None, [StorePut key binData])))"

definition Put ::
  "'m ProtoWrapper \<Rightarrow> string \<Rightarrow> 'm \<Rightarrow> PutOption list \<Rightarrow> error option \<times> event list" where
  "Put db key val opts = putProtoInternal (broker db) (serializer db) key val opts"

text \<open>
  \<open>getValueProtoInternal\<close> returns \<open>(found, revision, err)\<close>; the model adds the
  request object as the call leaves it and the events.
\<close>

definition getValueProtoInternal ::
  "BytesBroker \<Rightarrow> 'm Serializer \<Rightarrow> string \<Rightarrow> 'm
     \<Rightarrow> bool \<times> int64 \<times> error option \<times> 'm \<times> event list" where
  "getValueProtoInternal b s key reqObj =
     (case brokerGetValue b key of
        (resp, found, revision, Some e) \<Rightarrow> (False, 0, Some e, reqObj, [StoreGet key])
      | (resp, found, revision, None) \<Rightarrow>
          if \<not> found then (False, 0, None, reqObj, [StoreGet key])
          else (case Unmarshal s resp reqObj of
                  (obj, Some e) \<Rightarrow> (False, 0, Some e, obj, [StoreGet key])
                | (obj, None) \<Rightarrow> (True, revision, None, obj, [StoreGet key])))"

definition GetValue ::
  "'m ProtoWrapper \<Rightarrow> string \<Rightarrow> 'm \<Rightarrow> bool \<times> int64 \<times> error option \<times> 'm \<times> event list" where
  "GetValue db key reqObj = getValueProtoInternal (broker db) (serializer db) key reqObj"

definition Delete :: "'m ProtoWrapper \<Rightarrow> string \<Rightarrow> (bool \<times> error option) \<times> event list" where
  "Delete db key = (brokerDelete (broker db) key, [StoreDelete key])"

section \<open>db_utils.go: the data model\<close>

record VppMetaData =
  Rev :: int64
  Key :: string

record 'm IfConfigWithMD =
  Metadata :: VppMetaData
  Interface :: 'm

record 'm IfStateWithMD =
  Metadata :: VppMetaData
  InterfaceState :: 'm

record 'm InterfaceWithMD =
  Config :: "'m IfConfigWithMD option"
  State :: "'m IfStateWithMD option"

record 'm InterfaceErrorWithMD =
  VppMetaData :: VppMetaData
  InterfaceErrorList :: "'m list"

record 'm BridgeDomainErrorWithMD =
  VppMetaData :: VppMetaData
  BdErrorList :: "'m list"

record 'm BdConfigWithMD =
  Metadata :: VppMetaData
  BridgeDomain :: 'm

record 'm BdStateWithMD =
  Metadata :: VppMetaData
  BridgeDomainState :: 'm

record 'm BdWithMD =
  Config :: "'m BdConfigWithMD option"
  State :: "'m BdStateWithMD option"

record 'm FibTableWithMD =
  VppMetaData :: VppMetaData
  FibTable :: "'m list"

record 'm XconnectWithMD =
  VppMetaData :: VppMetaData
  XConnectPairs_XConnectPair :: 'm

record 'm StaticRoutesWithMD =
  VppMetaData :: VppMetaData
  StaticRoutes :: 'm

record 'm VppStatusWithMD =
  VppMetaData :: VppMetaData
  AgentStatus :: 'm

record 'm VppData =
  Interfaces :: "string \<rightharpoonup> 'm InterfaceWithMD"
  InterfaceErrors :: "string \<rightharpoonup> 'm InterfaceErrorWithMD"
  BridgeDomains :: "string \<rightharpoonup> 'm BdWithMD"
  BridgeDomainErrors :: "string \<rightharpoonup> 'm BridgeDomainErrorWithMD"
  FibTableEntries :: "'m FibTableWithMD"
  XConnectPairs :: "string \<rightharpoonup> 'm XconnectWithMD"
  StaticRoutes :: "'m StaticRoutesWithMD"
  Status :: "string \<rightharpoonup> 'm VppStatusWithMD"
  ShowEtcd :: bool

type_synonym 'm EtcdDump = "string \<rightharpoonup> 'm VppData"


section \<open>db_utils.go: what the file takes from elsewhere\<close>

text \<open>
  The message types (\<open>interfaces.Interfaces_Interface\<close>, ...) are opaque payloads of one
  type \<open>'m\<close>; \<open>shape\<close> names the Go type of a message.
\<close>

datatype shape =
    Msg_Interfaces_Interface
  | Msg_InterfacesState_Interface
  | Msg_InterfaceErrors_Interface
  | Msg_BridgeDomains_BridgeDomain
  | Msg_BridgeDomainState_BridgeDomain
  | Msg_BridgeDomainErrors_BridgeDomain
  | Msg_FibTableEntries_FibTableEntry
  | Msg_XConnectPairs_XConnectPair
  | Msg_StaticRoutes
  | Msg_AgentStatus

text \<open>
  Declarations that \<open>db_utils.go\<close> uses and that live in other files: the function
  \<open>ParseKey\<close> (returning label, data type, parameters and the status marker), the key
  prefix constants of the model packages, and the composite literal \<open>T{}\<close> of each
  message type (\<open>newMsg\<close>). They are parameters of every function below.
\<close>

record 'm decls =
  ParseKey :: "string \<Rightarrow> string \<times> string \<times> string list \<times> string"
  InterfacePrefix :: string
  IfStatePrefix :: string
  IfErrorPrefix :: string
  BdPrefix :: string
  BdStatePrefix :: string
  BdErrPrefix :: string
  FIBPrefix :: string
  XconnectPrefix :: string
  RoutesPrefix :: string
  StatusPrefix :: string
  newMsg :: "shape \<Rightarrow> 'm"

text \<open>\<open>strings.Contains\<close> on byte strings.\<close>

fun HasPrefix :: "string \<Rightarrow> string \<Rightarrow> bool" where
  "HasPrefix s [] = True"
| "HasPrefix [] (p # ps) = False"
| "HasPrefix (c # cs) (p # ps) = (c = p \<and> HasPrefix cs ps)"

fun Contains :: "string \<Rightarrow> string \<Rightarrow> bool" where
  "Contains [] substr = (substr = [])"
| "Contains (c # cs) substr = (HasPrefix (c # cs) substr \<or> Contains cs substr)"

text \<open>Go's map index expression: a missing key reads as the zero value of the element type.\<close>

definition zeroMetaData :: VppMetaData where
  "zeroMetaData = \<lparr>Rev = 0, Key = []\<rparr>"

definition indexInterfaces :: "(string \<rightharpoonup> 'm InterfaceWithMD) \<Rightarrow> string \<Rightarrow> 'm InterfaceWithMD" where
  "indexInterfaces m k =
     (case m k of None \<Rightarrow> \<lparr>InterfaceWithMD.Config = None, InterfaceWithMD.State = None\<rparr>
      | Some v \<Rightarrow> v)"

definition indexBridgeDomains :: "(string \<rightharpoonup> 'm BdWithMD) \<Rightarrow> string \<Rightarrow> 'm BdWithMD" where
  "indexBridgeDomains m k =
     (case m k of None \<Rightarrow> \<lparr>BdWithMD.Config = None, BdWithMD.State = None\<rparr>
      | Some v \<Rightarrow> v)"

definition indexInterfaceErrors ::
  "(string \<rightharpoonup> 'm InterfaceErrorWithMD) \<Rightarrow> string \<Rightarrow> 'm InterfaceErrorWithMD" where
  "indexInterfaceErrors m k =
     (case m k of
        None \<Rightarrow> \<lparr>InterfaceErrorWithMD.VppMetaData = zeroMetaData, InterfaceErrorList = []\<rparr>
      | Some v \<Rightarrow> v)"

definition indexBridgeDomainErrors ::
  "(string \<rightharpoonup> 'm BridgeDomainErrorWithMD) \<Rightarrow> string \<Rightarrow> 'm BridgeDomainErrorWithMD" where
  "indexBridgeDomainErrors m k =
     (case m k of
        None \<Rightarrow> \<lparr>BridgeDomainErrorWithMD.VppMetaData = zeroMetaData, BdErrorList = []\<rparr>
      | Some v \<Rightarrow> v)"

section \<open>db_utils.go: the functions\<close>

definition stsIDAgent :: string where
  "stsIDAgent = ''Agent''"

definition newVppDataRecord :: "'m decls \<Rightarrow> 'm VppData" where
  "newVppDataRecord D =
     \<lparr>Interfaces = Map.empty,
      InterfaceErrors = Map.empty,
      BridgeDomains = Map.empty,
      BridgeDomainErrors = Map.empty,
      FibTableEntries = \<lparr>FibTableWithMD.VppMetaData = zeroMetaData, FibTable = []\<rparr>,
      XConnectPairs = Map.empty,
      StaticRoutes =
        \<lparr>StaticRoutesWithMD.VppMetaData = zeroMetaData,
         StaticRoutesWithMD.StaticRoutes = newMsg D Msg_StaticRoutes\<rparr>,
      Status = Map.empty,
      ShowEtcd = False\<rparr>"

definition CreateEmptyRecord :: "'m decls \<Rightarrow> 'm EtcdDump \<Rightarrow> string \<Rightarrow> 'm EtcdDump" where
  "CreateEmptyRecord D ed key =
     (case ParseKey D key of (label, dataType, params, plugStatCfgRev) \<Rightarrow>
        ed(label \<mapsto> newVppDataRecord D))"

text \<open>The loop of \<open>isItemAllowed\<close> over the filter.\<close>

fun anyContains :: "string \<Rightarrow> string list \<Rightarrow> bool" where
  "anyContains item [] = False"
| "anyContains item (f # fs) = (if Contains item f then True else anyContains item fs)"

definition isItemAllowed :: "string \<Rightarrow> string list \<Rightarrow> bool" where
  "isItemAllowed item flt = (if length flt = 0 then True else anyContains item flt)"

text \<open>The lines that \<open>fmt.Printf\<close> writes: the format, with the key between apostrophes.\<close>

definition quoted :: "string \<Rightarrow> string" where
  "quoted key = [CHR 0x27] @ key @ [CHR 0x27]"

definition warnNotFound :: "string \<Rightarrow> string" where
  "warnNotFound key = ''WARNING: data for Key '' @ quoted key @ '' not found'' @ [CHR 0x0A]"

definition warnInvalid :: "string \<Rightarrow> string \<Rightarrow> string" where
  "warnInvalid what key = ''WARNING: Invalid '' @ what @ '' Key '' @ quoted key @ [CHR 0x0A]"

definition readDataFromDb ::
  "'m ProtoWrapper \<Rightarrow> string \<Rightarrow> 'm \<Rightarrow> bool \<times> int64 \<times> error option \<times> 'm \<times> event list" where
  "readDataFromDb db key obj =
     (case GetValue db key obj of
        (found, revision, Some e, obj', evs) \<Rightarrow>
          (False, revision,
           Some (ErrorsNew (''Could not read from database, Key:'' @ key @ '', error'' @ Error e)),
           obj', evs)
      | (found, revision, None, obj', evs) \<Rightarrow>
          (found, revision, None, obj',
           evs @ (if \<not> found then [Printed (warnNotFound key)] else [])))"


text \<open>
  The decoders. Each returns the record and the error as the Go function does, and the
  events. \<open>vd\<close> is a pointer in the source; the caller stores the returned record under
  the label, so passing the record by value loses nothing.
\<close>

definition readIfConfigFromDb :: 
  "'m decls \<Rightarrow> 'm ProtoWrapper \<Rightarrow> 'm VppData \<Rightarrow> string \<Rightarrow> string list
     \<Rightarrow> 'm VppData \<times> error option \<times> event list" where
  "readIfConfigFromDb D db vd key parms =
     (let ifc = newMsg D Msg_Interfaces_Interface in
      if length parms = 0 then (vd, None, [Printed (warnInvalid ''interface'' key)])
      else case readDataFromDb db key ifc of (found, revision, err, ifc', evs) \<Rightarrow>
        (if found \<and> err = None
         then vd\<lparr>Interfaces := (Interfaces vd)(parms ! 0 \<mapsto>
                \<lparr>InterfaceWithMD.Config =
                   Some \<lparr>IfConfigWithMD.Metadata = \<lparr>Rev = revision, Key = key\<rparr>,
                         Interface = ifc'\<rparr>,
                 InterfaceWithMD.State =
                   InterfaceWithMD.State (indexInterfaces (Interfaces vd) (parms ! 0))\<rparr>)\<rparr>
         else vd,
         err, evs))"

definition readIfStateFromDb :: 
  "'m decls \<Rightarrow> 'm ProtoWrapper \<Rightarrow> 'm VppData \<Rightarrow> string \<Rightarrow> string list
     \<Rightarrow> 'm VppData \<times> error option \<times> event list" where
  "readIfStateFromDb D db vd key parms =
     (let ifs = newMsg D Msg_InterfacesState_Interface in
      if length parms = 0 then (vd, None, [Printed (warnInvalid ''ifstate'' key)])
      else case readDataFromDb db key ifs of (found, revision, err, ifs', evs) \<Rightarrow>
        (if found \<and> err = None
         then vd\<lparr>Interfaces := (Interfaces vd)(parms ! 0 \<mapsto>
                \<lparr>InterfaceWithMD.Config =
                   InterfaceWithMD.Config (indexInterfaces (Interfaces vd) (parms ! 0)),
                 InterfaceWithMD.State =
                   Some \<lparr>IfStateWithMD.Metadata = \<lparr>Rev = revision, Key = key\<rparr>,
                         InterfaceState = ifs'\<rparr>\<rparr>)\<rparr>
         else vd,
         err, evs))"

definition readInterfaceErrorFromDb :: 
  "'m decls \<Rightarrow> 'm ProtoWrapper \<Rightarrow> 'm VppData \<Rightarrow> string \<Rightarrow> string list
     \<Rightarrow> 'm VppData \<times> error option \<times> event list" where
  "readInterfaceErrorFromDb D db vd key params =
     (let ife = newMsg D Msg_InterfaceErrors_Interface in
      if length params = 0 then (vd, None, [Printed (warnInvalid ''interface'' key)])
      else case readDataFromDb db key ife of (found, revision, err, ife', evs) \<Rightarrow>
        (if found \<and> err = None
         then (let ifaceErrList =
                     InterfaceErrorList (indexInterfaceErrors (InterfaceErrors vd) (params ! 0));
                   ifaceErrList = ifaceErrList @ [ife']
               in vd\<lparr>InterfaceErrors := (InterfaceErrors vd)(params ! 0 \<mapsto>
                      \<lparr>InterfaceErrorWithMD.VppMetaData = \<lparr>Rev = revision, Key = key\<rparr>,
                       InterfaceErrorList = ifaceErrList\<rparr>)\<rparr>)
         else vd,
         err, evs))"

definition readBdConfigFromDb :: 
  "'m decls \<Rightarrow> 'm ProtoWrapper \<Rightarrow> 'm VppData \<Rightarrow> string \<Rightarrow> string list
     \<Rightarrow> 'm VppData \<times> error option \<times> event list" where
  "readBdConfigFromDb D db vd key parms =
     (if length parms = 0
      then (vd, None, [Printed (warnInvalid ''bridge domain config'' key)])
      else let bd = newMsg D Msg_BridgeDomains_BridgeDomain in
        case readDataFromDb db key bd of (found, revision, err, bd', evs) \<Rightarrow>
        (if found \<and> err = None
         then vd\<lparr>BridgeDomains := (BridgeDomains vd)(parms ! 0 \<mapsto>
                \<lparr>BdWithMD.Config =
                   Some \<lparr>BdConfigWithMD.Metadata = \<lparr>Rev = revision, Key = key\<rparr>,
                         BridgeDomain = bd'\<rparr>,
                 BdWithMD.State =
                   BdWithMD.State (indexBridgeDomains (BridgeDomains vd) (parms ! 0))\<rparr>)\<rparr>
         else vd,
         err, evs))"

definition readBdStateFromDb :: 
  "'m decls \<Rightarrow> 'm ProtoWrapper \<Rightarrow> 'm VppData \<Rightarrow> string \<Rightarrow> string list
     \<Rightarrow> 'm VppData \<times> error option \<times> event list" where
  "readBdStateFromDb D db vd key parms =
     (if length parms = 0
      then (vd, None, [Printed (warnInvalid ''bridge domain state'' key)])
      else let bd = newMsg D Msg_BridgeDomainState_BridgeDomain in
        case readDataFromDb db key bd of (found, revision, err, bd', evs) \<Rightarrow>
        (if found \<and> err = None
         then vd\<lparr>BridgeDomains := (BridgeDomains vd)(parms ! 0 \<mapsto>
                \<lparr>BdWithMD.Config =
                   BdWithMD.Config (indexBridgeDomains (BridgeDomains vd) (parms ! 0)),
                 BdWithMD.State =
                   Some \<lparr>BdStateWithMD.Metadata = \<lparr>Rev = revision, Key = key\<rparr>,
                         BridgeDomainState = bd'\<rparr>\<rparr>)\<rparr>
         else vd,
         err, evs))"

definition readBdErrorFromDb :: 
  "'m decls \<Rightarrow> 'm ProtoWrapper \<Rightarrow> 'm VppData \<Rightarrow> string \<Rightarrow> string list
     \<Rightarrow> 'm VppData \<times> error option \<times> event list" where
  "readBdErrorFromDb D db vd key params =
     (let bde = newMsg D Msg_BridgeDomainErrors_BridgeDomain in
      if length params = 0 then (vd, None, [Printed (warnInvalid ''interface'' key)])
      else case readDataFromDb db key bde of (found, revision, err, bde', evs) \<Rightarrow>
        (if found \<and> err = None
         then (let bdErrList =
                     BdErrorList (indexBridgeDomainErrors (BridgeDomainErrors vd) (params ! 0));
                   bdErrList = bdErrList @ [bde']
               in vd\<lparr>BridgeDomainErrors := (BridgeDomainErrors vd)(params ! 0 \<mapsto>
                      \<lparr>BridgeDomainErrorWithMD.VppMetaData = \<lparr>Rev = revision, Key = key\<rparr>,
                       BdErrorList = bdErrList\<rparr>)\<rparr>)
         else vd,
         err, evs))"

definition readFibFromDb :: 
  "'m decls \<Rightarrow> 'm ProtoWrapper \<Rightarrow> 'm VppData \<Rightarrow> string \<Rightarrow> string list
     \<Rightarrow> 'm VppData \<times> error option \<times> event list" where
  "readFibFromDb D db vd key parms =
     (if length parms = 0 then (vd, None, [Printed (warnInvalid ''FIB'' key)])
      else let fibEntry = newMsg D Msg_FibTableEntries_FibTableEntry in
        case readDataFromDb db key fibEntry of (found, revision, err, fibEntry', evs) \<Rightarrow>
        (if found \<and> err = None
         then (let fibTable = FibTable (FibTableEntries vd);
                   fibTable = fibTable @ [fibEntry']
               in vd\<lparr>FibTableEntries :=
                      \<lparr>FibTableWithMD.VppMetaData = \<lparr>Rev = revision, Key = key\<rparr>,
                       FibTable = fibTable\<rparr>\<rparr>)
         else vd,
         err, evs))"

definition readXconnectFromDb :: 
  "'m decls \<Rightarrow> 'm ProtoWrapper \<Rightarrow> 'm VppData \<Rightarrow> string \<Rightarrow> string list
     \<Rightarrow> 'm VppData \<times> error option \<times> event list" where
  "readXconnectFromDb D db vd key parms =
     (if length parms = 0 then (vd, None, [Printed (warnInvalid ''cross-connect'' key)])
      else let xc = newMsg D Msg_XConnectPairs_XConnectPair in
        case readDataFromDb db key xc of (found, revision, err, xc', evs) \<Rightarrow>
        (if found \<and> err = None
         then vd\<lparr>XConnectPairs := (XConnectPairs vd)(parms ! 0 \<mapsto>
                \<lparr>XconnectWithMD.VppMetaData = \<lparr>Rev = revision, Key = key\<rparr>,
                 XConnectPairs_XConnectPair = xc'\<rparr>)\<rparr>
         else vd,
         err, evs))"

definition readRoutesFromDb ::
  "'m decls \<Rightarrow> 'm ProtoWrapper \<Rightarrow> 'm VppData \<Rightarrow> string
     \<Rightarrow> 'm VppData \<times> error option \<times> event list" where
  "readRoutesFromDb D db vd key =
     (let routes = newMsg D Msg_StaticRoutes in
      case readDataFromDb db key routes of (found, revision, err, routes', evs) \<Rightarrow>
        (if found \<and> err = None
         then vd\<lparr>VppData.StaticRoutes :=
                \<lparr>StaticRoutesWithMD.VppMetaData = \<lparr>Rev = revision, Key = key\<rparr>,
                 StaticRoutesWithMD.StaticRoutes = routes'\<rparr>\<rparr>
         else vd,
         err, evs))"

definition readStatusFromDb :: 
  "'m decls \<Rightarrow> 'm ProtoWrapper \<Rightarrow> 'm VppData \<Rightarrow> string \<Rightarrow> string list
     \<Rightarrow> 'm VppData \<times> error option \<times> event list" where
  "readStatusFromDb D db vd key parms =
     (let id = stsIDAgent;
          id = (if length parms > 0 then parms ! 0 else id);
          sts = newMsg D Msg_AgentStatus
      in case readDataFromDb db key sts of (found, revision, err, sts', evs) \<Rightarrow>
        (if found \<and> err = None
         then vd\<lparr>Status := (Status vd)(id \<mapsto>
                \<lparr>VppStatusWithMD.VppMetaData = \<lparr>Rev = revision, Key = key\<rparr>,
                 AgentStatus = sts'\<rparr>)\<rparr>
         else vd,
         err, evs))"

text \<open>
  \<open>ed[label], err = f(...)\<close> followed by \<open>return true, err\<close>: the decoder's record is
  stored under the label whatever the error is.
\<close>

definition storeUnder ::
  "'m EtcdDump \<Rightarrow> string \<Rightarrow> 'm VppData \<times> error option \<times> event list
     \<Rightarrow> (bool \<times> error option) \<times> 'm EtcdDump \<times> event list" where
  "storeUnder ed label r = (case r of (vd, err, evs) \<Rightarrow> ((True, err), ed(label \<mapsto> vd), evs))"

text \<open>
  \<open>vd, ok := ed[label]; if !ok { vd = newVppDataRecord() }\<close>, as it stands twice in
  \<open>ReadDataFromDb\<close>.
\<close>

definition recordFor :: "'m decls \<Rightarrow> 'm EtcdDump \<Rightarrow> string \<Rightarrow> 'm VppData" where
  "recordFor D ed label = (case ed label of None \<Rightarrow> newVppDataRecord D | Some v \<Rightarrow> v)"

text \<open>
  \<open>ReadDataFromDb\<close> returns \<open>(found, err)\<close>; the model adds the dump afterwards and
  the events. The \<open>switch\<close> takes the first case that equals \<open>dataType\<close>; with no such
  case nothing is assigned.
\<close>

definition ReadDataFromDb ::
  "'m decls \<Rightarrow> 'm EtcdDump \<Rightarrow> 'm ProtoWrapper \<Rightarrow> string \<Rightarrow> string list \<Rightarrow> string list
     \<Rightarrow> (bool \<times> error option) \<times> 'm EtcdDump \<times> event list" where
  "ReadDataFromDb D ed db key labelFilter typeFilter =
     (case ParseKey D key of (label, dataType, params, plugStatCfgRev) \<Rightarrow>
        if \<not> isItemAllowed label labelFilter then ((False, None), ed, [])
        else if plugStatCfgRev = StatusPrefix D then
          (let vd = recordFor D ed label
           in storeUnder ed label (readStatusFromDb D db vd key params))
        else if \<not> isItemAllowed dataType typeFilter then ((False, None), ed, [])
        else
          (let vd = recordFor D ed label in
           if dataType = InterfacePrefix D then
             storeUnder ed label (readIfConfigFromDb D db vd key params)
           else if dataType = IfStatePrefix D then
             storeUnder ed label (readIfStateFromDb D db vd key params)
           else if dataType = IfErrorPrefix D then
             storeUnder ed label (readInterfaceErrorFromDb D db vd key params)
           else if dataType = BdPrefix D then
             storeUnder ed label (readBdConfigFromDb D db vd key params)
           else if dataType = BdStatePrefix D then
             storeUnder ed label (readBdStateFromDb D db vd key params)
           else if dataType = BdErrPrefix D then
             storeUnder ed label (readBdErrorFromDb D db vd key params)
           else if dataType = FIBPrefix D then
             storeUnder ed label (readFibFromDb D db vd key params)
           else if dataType = XconnectPrefix D then
             storeUnder ed label (readXconnectFromDb D db vd key params)
           else if dataType = RoutesPrefix D then
             storeUnder ed label (readRoutesFromDb D db vd key)
           else ((True, None), ed, [])))"

definition DeleteDataFromDb ::
  "'m decls \<Rightarrow> 'm ProtoWrapper \<Rightarrow> string \<Rightarrow> string list \<Rightarrow> string list
     \<Rightarrow> (bool \<times> error option) \<times> event list" where
  "DeleteDataFromDb D db key labelFilter typeFilter =
     (case ParseKey D key of (label, dataType, params, plugStatCfgRev) \<Rightarrow>
        if \<not> isItemAllowed label labelFilter then ((False, None), [])
        else if \<not> isItemAllowed dataType typeFilter then ((False, None), [])
        else Delete db key)"


text \<open>
  The cases of the \<open>switch\<close> in \<open>ReadDataFromDb\<close> are constants, and the Go compiler
  rejects a \<open>switch\<close> with two equal constant cases: the nine prefixes are distinct.
\<close>

definition distinctPrefixes :: "'m decls \<Rightarrow> bool" where
  "distinctPrefixes D =
     distinct [InterfacePrefix D, IfStatePrefix D, IfErrorPrefix D, BdPrefix D, BdStatePrefix D,
               BdErrPrefix D, FIBPrefix D, XconnectPrefix D, RoutesPrefix D]"

text \<open>
  The Go type of the message that a key hands to \<open>readDataFromDb\<close>: the composite
  literal of the decoder that \<open>ReadDataFromDb\<close> calls for this data type and status
  marker (\<open>status.AgentStatus{}\<close> for a status key, \<open>l3.StaticRoutes{}\<close> for a routes
  key, and so on, in the order of the \<open>switch\<close>).
\<close>

definition targetShape :: "'m decls \<Rightarrow> string \<Rightarrow> string \<Rightarrow> shape" where
  "targetShape D dataType plugStatCfgRev =
     (if plugStatCfgRev = StatusPrefix D then Msg_AgentStatus
      else if dataType = InterfacePrefix D then Msg_Interfaces_Interface
      else if dataType = IfStatePrefix D then Msg_InterfacesState_Interface
      else if dataType = IfErrorPrefix D then Msg_InterfaceErrors_Interface
      else if dataType = BdPrefix D then Msg_BridgeDomains_BridgeDomain
      else if dataType = BdStatePrefix D then Msg_BridgeDomainState_BridgeDomain
      else if dataType = BdErrPrefix D then Msg_BridgeDomainErrors_BridgeDomain
      else if dataType = FIBPrefix D then Msg_FibTableEntries_FibTableEntry
      else if dataType = XconnectPrefix D then Msg_XConnectPairs_XConnectPair
      else Msg_StaticRoutes)"

section \<open>An example store and key scheme\<close>

text \<open>
  A concrete instance of the parameters, on which the theorems below are instantiated:
  messages are byte strings, unmarshalling copies the stored bytes into the message and
  fails on the single byte \<open>0xFF\<close>, and \<open>exampleParseKey\<close> knows a handful of keys.
\<close>

definition exampleSerializer :: "bytes Serializer" where
  "exampleSerializer =
     \<lparr>Marshal = (\<lambda>m. if m = [0xFF] then ([], Some (EncodeError ''bad message'')) else (m, None)),
      Unmarshal = (\<lambda>bs obj. if bs = [0xFF] then (obj, Some (DecodeError ''bad wire data''))
                             else (bs, None))\<rparr>"

definition exampleBroker :: BytesBroker where
  "exampleBroker =
     \<lparr>brokerPut = (\<lambda>k d opts. None),
      brokerGetValue = (\<lambda>k.
         if k = ''agent1/vpp/config/v1/interface/eth0'' then ([1, 2], True, 42, None)
         else if k = ''agent1/vpp/status/v1/interface/eth0'' then ([3], True, 43, None)
         else if k = ''agent1/vpp/status/v1/interface/error/eth0'' then ([4], True, 44, None)
         else if k = ''agent1/vpp/status/v1/interface/error/eth0/rx'' then ([8], True, 49, None)
         else if k = ''agent1/vpp/status/v1/bd/error/bd0'' then ([5], True, 45, None)
         else if k = ''agent1/check/status/v1/agent'' then ([6], True, 46, None)
         else if k = ''agent1/check/status/v1/plugin/etcd'' then ([7], True, 47, None)
         else if k = ''agent1/vpp/config/v1/bd/bd0'' then ([0xFF], True, 48, None)
         else ([], False, 0, None)),
      brokerDelete = (\<lambda>k. (False, None))\<rparr>"

definition failingBroker :: BytesBroker where
  "failingBroker =
     \<lparr>brokerPut = (\<lambda>k d opts. Some (StoreError ''store unavailable'')),
      brokerGetValue = (\<lambda>k. ([], False, 0, Some (StoreError ''store unavailable''))),
      brokerDelete = (\<lambda>k. (False, Some (StoreError ''store unavailable'')))\<rparr>"

definition exampleDb :: "bytes ProtoWrapper" where
  "exampleDb = \<lparr>broker = exampleBroker, serializer = exampleSerializer\<rparr>"

definition failingDb :: "bytes ProtoWrapper" where
  "failingDb = \<lparr>broker = failingBroker, serializer = exampleSerializer\<rparr>"

definition exampleParseKey :: "string \<Rightarrow> string \<times> string \<times> string list \<times> string" where
  "exampleParseKey k =
     (if k = ''agent1/vpp/config/v1/interface/eth0''
        then (''agent1'', ''vpp/config/v1/interface/'', [''eth0''], [])
      else if k = ''agent1/vpp/status/v1/interface/eth0''
        then (''agent1'', ''vpp/status/v1/interface/'', [''eth0''], [])
      else if k = ''agent1/vpp/status/v1/interface/error/eth0''
        then (''agent1'', ''vpp/status/v1/interface/error/'', [''eth0''], [])
      else if k = ''agent1/vpp/status/v1/interface/error/eth0/rx''
        then (''agent1'', ''vpp/status/v1/interface/error/'', [''eth0'', ''rx''], [])
      else if k = ''agent1/vpp/status/v1/bd/error/bd0''
        then (''agent1'', ''vpp/status/v1/bd/error/'', [''bd0''], [])
      else if k = ''agent1/vpp/config/v1/bd/bd0''
        then (''agent1'', ''vpp/config/v1/bd/'', [''bd0''], [])
      else if k = ''agent1/vpp/config/v1/bd/bd1''
        then (''agent1'', ''vpp/config/v1/bd/'', [''bd1''], [])
      else if k = ''agent1/vpp/config/v1/interface/''
        then (''agent1'', ''vpp/config/v1/interface/'', [], [])
      else if k = ''agent1/vpp/config/v1/acl/acl0''
        then (''agent1'', ''vpp/config/v1/acl/'', [''acl0''], [])
      else if k = ''agent1/check/status/v1/agent''
        then (''agent1'', [], [], ''check/status/v1/'')
      else if k = ''agent1/check/status/v1/plugin/etcd''
        then (''agent1'', [], [''etcd''], ''check/status/v1/'')
      else ([], [], [], []))"

definition exampleDecls :: "bytes decls" where
  "exampleDecls =
     \<lparr>ParseKey = exampleParseKey,
      InterfacePrefix = ''vpp/config/v1/interface/'',
      IfStatePrefix = ''vpp/status/v1/interface/'',
      IfErrorPrefix = ''vpp/status/v1/interface/error/'',
      BdPrefix = ''vpp/config/v1/bd/'',
      BdStatePrefix = ''vpp/status/v1/bd/'',
      BdErrPrefix = ''vpp/status/v1/bd/error/'',
      FIBPrefix = ''vpp/config/v1/bd/fib/'',
      XconnectPrefix = ''vpp/config/v1/xconnect/'',
      RoutesPrefix = ''vpp/config/v1/vrf/0/fib'',
      StatusPrefix = ''check/status/v1/'',
      newMsg = (\<lambda>t. [])\<rparr>"

section \<open>Facts about the building blocks\<close>

lemma anyContains_iff: "anyContains item fs = (\<exists>f \<in> set fs. Contains item f)"
  by (induction fs) auto

lemma isItemAllowed_iff:
  "isItemAllowed item fs = (fs = [] \<or> (\<exists>f \<in> set fs. Contains item f))"
  by (cases fs) (simp_all add: isItemAllowed_def anyContains_iff)

lemma readDataFromDb_found:
  assumes "brokerGetValue (broker db) key = (bs, True, r, None)"
      and "Unmarshal (serializer db) bs obj = (m, None)"
  shows "readDataFromDb db key obj = (True, r, None, m, [StoreGet key])"
  using assms by (simp add: readDataFromDb_def GetValue_def getValueProtoInternal_def)

lemma readDataFromDb_absent:
  assumes "brokerGetValue (broker db) key = (bs, False, r, None)"
  shows "readDataFromDb db key obj =
           (False, 0, None, obj, [StoreGet key, Printed (warnNotFound key)])"
  using assms by (simp add: readDataFromDb_def GetValue_def getValueProtoInternal_def)

lemma readDataFromDb_decode_error:
  assumes "brokerGetValue (broker db) key = (bs, True, r, None)"
      and "Unmarshal (serializer db) bs obj = (m, Some e)"
  shows "readDataFromDb db key obj =
           (False, 0,
            Some (ErrorsNew (''Could not read from database, Key:'' @ key @ '', error'' @ Error e)),
            m, [StoreGet key])"
  using assms by (simp add: readDataFromDb_def GetValue_def getValueProtoInternal_def)

lemma readDataFromDb_store_error:
  assumes "brokerGetValue (broker db) key = (bs, fnd, r, Some e)"
  shows "readDataFromDb db key obj =
           (False, 0,
            Some (ErrorsNew (''Could not read from database, Key:'' @ key @ '', error'' @ Error e)),
            obj, [StoreGet key])"
  using assms by (simp add: readDataFromDb_def GetValue_def getValueProtoInternal_def)


lemma putProtoInternal_marshal_error:
  assumes "Marshal s val = (binData, Some e)"
  shows "putProtoInternal b s key val opts = (Some e, [])"
  using assms by (simp add: putProtoInternal_def)

lemma putProtoInternal_marshalled:
  assumes "Marshal s val = (binData, None)"
  shows "putProtoInternal b s key val opts = (None, [StorePut key binData])"
  using assms by (simp add: putProtoInternal_def)

lemma dispatch_status:
  assumes "ParseKey D key = (label, dataType, params, StatusPrefix D)"
      and "isItemAllowed label labelFilter"
  shows "ReadDataFromDb D ed db key labelFilter typeFilter =
           storeUnder ed label (readStatusFromDb D db (recordFor D ed label) key params)"
  using assms by (simp add: ReadDataFromDb_def Let_def)

lemma distinctPrefixes_later:
  assumes "distinctPrefixes D"
  shows "IfStatePrefix D \<noteq> InterfacePrefix D"
    and "IfErrorPrefix D \<noteq> InterfacePrefix D"
    and "IfErrorPrefix D \<noteq> IfStatePrefix D"
    and "BdPrefix D \<noteq> InterfacePrefix D"
    and "BdPrefix D \<noteq> IfStatePrefix D"
    and "BdPrefix D \<noteq> IfErrorPrefix D"
    and "BdStatePrefix D \<noteq> InterfacePrefix D"
    and "BdStatePrefix D \<noteq> IfStatePrefix D"
    and "BdStatePrefix D \<noteq> IfErrorPrefix D"
    and "BdStatePrefix D \<noteq> BdPrefix D"
    and "BdErrPrefix D \<noteq> InterfacePrefix D"
    and "BdErrPrefix D \<noteq> IfStatePrefix D"
    and "BdErrPrefix D \<noteq> IfErrorPrefix D"
    and "BdErrPrefix D \<noteq> BdPrefix D"
    and "BdErrPrefix D \<noteq> BdStatePrefix D"
    and "FIBPrefix D \<noteq> InterfacePrefix D"
    and "FIBPrefix D \<noteq> IfStatePrefix D"
    and "FIBPrefix D \<noteq> IfErrorPrefix D"
    and "FIBPrefix D \<noteq> BdPrefix D"
    and "FIBPrefix D \<noteq> BdStatePrefix D"
    and "FIBPrefix D \<noteq> BdErrPrefix D"
    and "XconnectPrefix D \<noteq> InterfacePrefix D"
    and "XconnectPrefix D \<noteq> IfStatePrefix D"
    and "XconnectPrefix D \<noteq> IfErrorPrefix D"
    and "XconnectPrefix D \<noteq> BdPrefix D"
    and "XconnectPrefix D \<noteq> BdStatePrefix D"
    and "XconnectPrefix D \<noteq> BdErrPrefix D"
    and "XconnectPrefix D \<noteq> FIBPrefix D"
    and "RoutesPrefix D \<noteq> InterfacePrefix D"
    and "RoutesPrefix D \<noteq> IfStatePrefix D"
    and "RoutesPrefix D \<noteq> IfErrorPrefix D"
    and "RoutesPrefix D \<noteq> BdPrefix D"
    and "RoutesPrefix D \<noteq> BdStatePrefix D"
    and "RoutesPrefix D \<noteq> BdErrPrefix D"
    and "RoutesPrefix D \<noteq> FIBPrefix D"
    and "RoutesPrefix D \<noteq> XconnectPrefix D"
  using assms by (auto simp add: distinctPrefixes_def)

lemma dispatch_typed:
  assumes "ParseKey D key = (label, dataType, params, plugStatCfgRev)"
      and "plugStatCfgRev \<noteq> StatusPrefix D"
      and "isItemAllowed label labelFilter"
      and "isItemAllowed dataType typeFilter"
      and "distinctPrefixes D"
  shows "dataType = InterfacePrefix D \<Longrightarrow>
           ReadDataFromDb D ed db key labelFilter typeFilter =
           storeUnder ed label (readIfConfigFromDb D db (recordFor D ed label) key params)"
    and "dataType = IfStatePrefix D \<Longrightarrow>
           ReadDataFromDb D ed db key labelFilter typeFilter =
           storeUnder ed label (readIfStateFromDb D db (recordFor D ed label) key params)"
    and "dataType = IfErrorPrefix D \<Longrightarrow>
           ReadDataFromDb D ed db key labelFilter typeFilter =
           storeUnder ed label (readInterfaceErrorFromDb D db (recordFor D ed label) key params)"
    and "dataType = BdPrefix D \<Longrightarrow>
           ReadDataFromDb D ed db key labelFilter typeFilter =
           storeUnder ed label (readBdConfigFromDb D db (recordFor D ed label) key params)"
    and "dataType = BdStatePrefix D \<Longrightarrow>
           ReadDataFromDb D ed db key labelFilter typeFilter =
           storeUnder ed label (readBdStateFromDb D db (recordFor D ed label) key params)"
    and "dataType = BdErrPrefix D \<Longrightarrow>
           ReadDataFromDb D ed db key labelFilter typeFilter =
           storeUnder ed label (readBdErrorFromDb D db (recordFor D ed label) key params)"
    and "dataType = FIBPrefix D \<Longrightarrow>
           ReadDataFromDb D ed db key labelFilter typeFilter =
           storeUnder ed label (readFibFromDb D db (recordFor D ed label) key params)"
    and "dataType = XconnectPrefix D \<Longrightarrow>
           ReadDataFromDb D ed db key labelFilter typeFilter =
           storeUnder ed label (readXconnectFromDb D db (recordFor D ed label) key params)"
    and "dataType = RoutesPrefix D \<Longrightarrow>
           ReadDataFromDb D ed db key labelFilter typeFilter =
           storeUnder ed label (readRoutesFromDb D db (recordFor D ed label) key)"
  using assms(1-4) distinctPrefixes_later [OF assms(5)]
  by (simp_all add: ReadDataFromDb_def Let_def)


lemmas decoder_defs =
  readIfConfigFromDb_def readIfStateFromDb_def readInterfaceErrorFromDb_def
  readBdConfigFromDb_def readBdStateFromDb_def readBdErrorFromDb_def readFibFromDb_def
  readXconnectFromDb_def readRoutesFromDb_def readStatusFromDb_def

lemma decoders_absent:
  assumes "brokerGetValue (broker db) key = (bs, False, r, None)"
  shows "ps \<noteq> [] \<Longrightarrow> readIfConfigFromDb D db vd key ps =
           (vd, None, [StoreGet key, Printed (warnNotFound key)])"
    and "ps \<noteq> [] \<Longrightarrow> readIfStateFromDb D db vd key ps =
           (vd, None, [StoreGet key, Printed (warnNotFound key)])"
    and "ps \<noteq> [] \<Longrightarrow> readInterfaceErrorFromDb D db vd key ps =
           (vd, None, [StoreGet key, Printed (warnNotFound key)])"
    and "ps \<noteq> [] \<Longrightarrow> readBdConfigFromDb D db vd key ps =
           (vd, None, [StoreGet key, Printed (warnNotFound key)])"
    and "ps \<noteq> [] \<Longrightarrow> readBdStateFromDb D db vd key ps =
           (vd, None, [StoreGet key, Printed (warnNotFound key)])"
    and "ps \<noteq> [] \<Longrightarrow> readBdErrorFromDb D db vd key ps =
           (vd, None, [StoreGet key, Printed (warnNotFound key)])"
    and "ps \<noteq> [] \<Longrightarrow> readFibFromDb D db vd key ps =
           (vd, None, [StoreGet key, Printed (warnNotFound key)])"
    and "ps \<noteq> [] \<Longrightarrow> readXconnectFromDb D db vd key ps =
           (vd, None, [StoreGet key, Printed (warnNotFound key)])"
    and "readRoutesFromDb D db vd key =
           (vd, None, [StoreGet key, Printed (warnNotFound key)])"
    and "readStatusFromDb D db vd key ps =
           (vd, None, [StoreGet key, Printed (warnNotFound key)])"
  by (simp_all add: decoder_defs Let_def readDataFromDb_absent [OF assms])

lemma decoders_decode_error:
  assumes "brokerGetValue (broker db) key = (bs, True, r, None)"
  defines "err \<equiv> \<lambda>e. Some (ErrorsNew (''Could not read from database, Key:'' @ key @
                                         '', error'' @ Error e))"
  shows "ps \<noteq> [] \<Longrightarrow>
           Unmarshal (serializer db) bs (newMsg D Msg_Interfaces_Interface) = (m, Some e) \<Longrightarrow>
           readIfConfigFromDb D db vd key ps = (vd, err e, [StoreGet key])"
    and "ps \<noteq> [] \<Longrightarrow>
           Unmarshal (serializer db) bs (newMsg D Msg_InterfacesState_Interface) = (m, Some e) \<Longrightarrow>
           readIfStateFromDb D db vd key ps = (vd, err e, [StoreGet key])"
    and "ps \<noteq> [] \<Longrightarrow>
           Unmarshal (serializer db) bs (newMsg D Msg_InterfaceErrors_Interface) = (m, Some e) \<Longrightarrow>
           readInterfaceErrorFromDb D db vd key ps = (vd, err e, [StoreGet key])"
    and "ps \<noteq> [] \<Longrightarrow>
           Unmarshal (serializer db) bs (newMsg D Msg_BridgeDomains_BridgeDomain) = (m, Some e) \<Longrightarrow>
           readBdConfigFromDb D db vd key ps = (vd, err e, [StoreGet key])"
    and "ps \<noteq> [] \<Longrightarrow>
           Unmarshal (serializer db) bs (newMsg D Msg_BridgeDomainState_BridgeDomain) = (m, Some e) \<Longrightarrow>
           readBdStateFromDb D db vd key ps = (vd, err e, [StoreGet key])"
    and "ps \<noteq> [] \<Longrightarrow>
           Unmarshal (serializer db) bs (newMsg D Msg_BridgeDomainErrors_BridgeDomain) = (m, Some e) \<Longrightarrow>
           readBdErrorFromDb D db vd key ps = (vd, err e, [StoreGet key])"
    and "ps \<noteq> [] \<Longrightarrow>
           Unmarshal (serializer db) bs (newMsg D Msg_FibTableEntries_FibTableEntry) = (m, Some e) \<Longrightarrow>
           readFibFromDb D db vd key ps = (vd, err e, [StoreGet key])"
    and "ps \<noteq> [] \<Longrightarrow>
           Unmarshal (serializer db) bs (newMsg D Msg_XConnectPairs_XConnectPair) = (m, Some e) \<Longrightarrow>
           readXconnectFromDb D db vd key ps = (vd, err e, [StoreGet key])"
    and "Unmarshal (serializer db) bs (newMsg D Msg_StaticRoutes) = (m, Some e) \<Longrightarrow>
           readRoutesFromDb D db vd key = (vd, err e, [StoreGet key])"
    and "Unmarshal (serializer db) bs (newMsg D Msg_AgentStatus) = (m, Some e) \<Longrightarrow>
           readStatusFromDb D db vd key ps = (vd, err e, [StoreGet key])"
  using assms(1)
  by (simp_all add: decoder_defs Let_def err_def readDataFromDb_def GetValue_def
        getValueProtoInternal_def)

lemma decoders_store_error:
  assumes "brokerGetValue (broker db) key = (bs, fnd, r, Some e)"
  defines "err \<equiv> Some (ErrorsNew (''Could not read from database, Key:'' @ key @
                                     '', error'' @ Error e))"
  shows "ps \<noteq> [] \<Longrightarrow> readIfConfigFromDb D db vd key ps = (vd, err, [StoreGet key])"
    and "ps \<noteq> [] \<Longrightarrow> readIfStateFromDb D db vd key ps = (vd, err, [StoreGet key])"
    and "ps \<noteq> [] \<Longrightarrow> readInterfaceErrorFromDb D db vd key ps = (vd, err, [StoreGet key])"
    and "ps \<noteq> [] \<Longrightarrow> readBdConfigFromDb D db vd key ps = (vd, err, [StoreGet key])"
    and "ps \<noteq> [] \<Longrightarrow> readBdStateFromDb D db vd key ps = (vd, err, [StoreGet key])"
    and "ps \<noteq> [] \<Longrightarrow> readBdErrorFromDb D db vd key ps = (vd, err, [StoreGet key])"
    and "ps \<noteq> [] \<Longrightarrow> readFibFromDb D db vd key ps = (vd, err, [StoreGet key])"
    and "ps \<noteq> [] \<Longrightarrow> readXconnectFromDb D db vd key ps = (vd, err, [StoreGet key])"
    and "readRoutesFromDb D db vd key = (vd, err, [StoreGet key])"
    and "readStatusFromDb D db vd key ps = (vd, err, [StoreGet key])"
  by (simp_all add: decoder_defs Let_def err_def readDataFromDb_store_error [OF assms(1)])

lemma ingest_get_error:
  assumes "ParseKey D key = (label, dataType, params, plugStatCfgRev)"
      and "isItemAllowed label labelFilter"
      and "distinctPrefixes D"
      and "plugStatCfgRev = StatusPrefix D \<or>
           isItemAllowed dataType typeFilter \<and>
           (dataType = RoutesPrefix D \<or>
            params \<noteq> [] \<and>
            dataType \<in> {InterfacePrefix D, IfStatePrefix D, IfErrorPrefix D, BdPrefix D,
                          BdStatePrefix D, BdErrPrefix D, FIBPrefix D, XconnectPrefix D})"
      and "brokerGetValue (broker db) key = (bs, fnd, r, Some e)"
  shows "ReadDataFromDb D ed db key labelFilter typeFilter =
           ((True, Some (ErrorsNew (''Could not read from database, Key:'' @ key @
                                     '', error'' @ Error e))),
            ed(label \<mapsto> recordFor D ed label), [StoreGet key])"
proof (cases "plugStatCfgRev = StatusPrefix D")
  case True
  with assms(1,2) show ?thesis
    by (simp add: dispatch_status storeUnder_def decoders_store_error [OF assms(5)])
next
  case False
  note typed = dispatch_typed [OF assms(1) False assms(2) _ assms(3)]
  from False assms(4) have allowed: "isItemAllowed dataType typeFilter"
    and shape: "dataType = RoutesPrefix D \<or> params \<noteq> [] \<and>
          dataType \<in> {InterfacePrefix D, IfStatePrefix D, IfErrorPrefix D, BdPrefix D,
                        BdStatePrefix D, BdErrPrefix D, FIBPrefix D, XconnectPrefix D}"
    by simp_all
  from shape show ?thesis
    using typed [OF allowed]
    by (auto simp add: storeUnder_def decoders_store_error [OF assms(5)])
qed

lemma ingest_ifconfig_found:
  assumes "ParseKey D key = (label, InterfacePrefix D, ps, s)"
      and "s \<noteq> StatusPrefix D"
      and "isItemAllowed label lf"
      and "isItemAllowed (InterfacePrefix D) tf"
      and "distinctPrefixes D"
      and "ps \<noteq> []"
      and "brokerGetValue (broker db) key = (bs, True, r, None)"
      and "Unmarshal (serializer db) bs (newMsg D Msg_Interfaces_Interface) = (m, None)"
  shows "ReadDataFromDb D ed db key lf tf =
           ((True, None),
            ed(label \<mapsto> (recordFor D ed label)
               \<lparr>Interfaces := (Interfaces (recordFor D ed label))(ps ! 0 \<mapsto>
                  \<lparr>InterfaceWithMD.Config =
                     Some \<lparr>IfConfigWithMD.Metadata = \<lparr>Rev = r, Key = key\<rparr>, Interface = m\<rparr>,
                   InterfaceWithMD.State = InterfaceWithMD.State
                     (indexInterfaces (Interfaces (recordFor D ed label)) (ps ! 0))\<rparr>)\<rparr>),
            [StoreGet key])"
  using assms(6)
  by (simp add: dispatch_typed(1) [OF assms(1-5) refl] storeUnder_def readIfConfigFromDb_def
        Let_def readDataFromDb_found [OF assms(7,8)])

lemma ingest_ifstate_found:
  assumes "ParseKey D key = (label, IfStatePrefix D, ps, s)"
      and "s \<noteq> StatusPrefix D"
      and "isItemAllowed label lf"
      and "isItemAllowed (IfStatePrefix D) tf"
      and "distinctPrefixes D"
      and "ps \<noteq> []"
      and "brokerGetValue (broker db) key = (bs, True, r, None)"
      and "Unmarshal (serializer db) bs (newMsg D Msg_InterfacesState_Interface) = (m, None)"
  shows "ReadDataFromDb D ed db key lf tf =
           ((True, None),
            ed(label \<mapsto> (recordFor D ed label)
               \<lparr>Interfaces := (Interfaces (recordFor D ed label))(ps ! 0 \<mapsto>
                  \<lparr>InterfaceWithMD.Config = InterfaceWithMD.Config
                     (indexInterfaces (Interfaces (recordFor D ed label)) (ps ! 0)),
                   InterfaceWithMD.State =
                     Some \<lparr>IfStateWithMD.Metadata = \<lparr>Rev = r, Key = key\<rparr>,
                           InterfaceState = m\<rparr>\<rparr>)\<rparr>),
            [StoreGet key])"
  using assms(6)
  by (simp add: dispatch_typed(2) [OF assms(1-5) refl] storeUnder_def readIfStateFromDb_def
        Let_def readDataFromDb_found [OF assms(7,8)])

lemma recordFor_upd [simp]: "recordFor D (ed(label \<mapsto> vd)) label = vd"
  by (simp add: recordFor_def)

lemma ingest_iferror_found:
  assumes "ParseKey D key = (label, t, ps, s)"
      and "s \<noteq> StatusPrefix D"
      and "isItemAllowed label lf"
      and "isItemAllowed t tf"
      and "distinctPrefixes D"
      and "t = IfErrorPrefix D"
      and "ps \<noteq> []"
      and "brokerGetValue (broker db) key = (bs, True, r, None)"
      and "Unmarshal (serializer db) bs (newMsg D Msg_InterfaceErrors_Interface) = (m, None)"
  shows "ReadDataFromDb D ed db key lf tf =
           ((True, None),
            ed(label \<mapsto> (recordFor D ed label)
               \<lparr>InterfaceErrors := (InterfaceErrors (recordFor D ed label))(ps ! 0 \<mapsto>
                  \<lparr>InterfaceErrorWithMD.VppMetaData = \<lparr>Rev = r, Key = key\<rparr>,
                   InterfaceErrorList =
                     InterfaceErrorList
                       (indexInterfaceErrors (InterfaceErrors (recordFor D ed label)) (ps ! 0))
                     @ [m]\<rparr>)\<rparr>),
            [StoreGet key])"
  using assms(7)
  by (simp add: dispatch_typed(3) [OF assms(1-6)] storeUnder_def readInterfaceErrorFromDb_def
        Let_def readDataFromDb_found [OF assms(8,9)])

lemma ingest_bderror_found:
  assumes "ParseKey D key = (label, t, ps, s)"
      and "s \<noteq> StatusPrefix D"
      and "isItemAllowed label lf"
      and "isItemAllowed t tf"
      and "distinctPrefixes D"
      and "t = BdErrPrefix D"
      and "ps \<noteq> []"
      and "brokerGetValue (broker db) key = (bs, True, r, None)"
      and "Unmarshal (serializer db) bs (newMsg D Msg_BridgeDomainErrors_BridgeDomain) = (m, None)"
  shows "ReadDataFromDb D ed db key lf tf =
           ((True, None),
            ed(label \<mapsto> (recordFor D ed label)
               \<lparr>BridgeDomainErrors := (BridgeDomainErrors (recordFor D ed label))(ps ! 0 \<mapsto>
                  \<lparr>BridgeDomainErrorWithMD.VppMetaData = \<lparr>Rev = r, Key = key\<rparr>,
                   BdErrorList =
                     BdErrorList
                       (indexBridgeDomainErrors (BridgeDomainErrors (recordFor D ed label)) (ps ! 0))
                     @ [m]\<rparr>)\<rparr>),
            [StoreGet key])"
  using assms(7)
  by (simp add: dispatch_typed(6) [OF assms(1-6)] storeUnder_def readBdErrorFromDb_def
        Let_def readDataFromDb_found [OF assms(8,9)])

section \<open>The typed broker: put\<close>

text \<open>
  C2. \<open>put\<close> marshals the message and writes it to the byte store; a failed write is
  meant to reach the caller as an error. On a store whose \<open>Put\<close> fails with a store
  error, and a message that marshals, \<open>Put\<close> of the wrapper issues the write and
  returns no error: the store's error is lost.
\<close>

theorem put_drops_store_error:
  "brokerPut failingBroker ''agent1/vpp/config/v1/interface/eth0'' [1, 2] [] =
     Some (StoreError ''store unavailable'')
   \<and> Put failingDb ''agent1/vpp/config/v1/interface/eth0'' [1, 2] [] =
     (None, [StorePut ''agent1/vpp/config/v1/interface/eth0'' [1, 2]])"
  by (simp add: Put_def putProtoInternal_def failingDb_def failingBroker_def exampleSerializer_def)

section \<open>The aggregator: filters and dispatch\<close>

text \<open>
  C5. A key whose label contains none of the entries of a non-empty label filter is
  rejected before anything else happens: \<open>ReadDataFromDb\<close> returns found = false and no
  error, the dump is unchanged and no event occurs, so the store is not called. Nothing
  is assumed about the status marker of the key: the label filter comes before the test
  for the status namespace.
\<close>

theorem label_mismatch_skips_store:
  assumes "ParseKey D key = (label, dataType, params, plugStatCfgRev)"
      and "labelFilter \<noteq> []"
      and "\<forall>f \<in> set labelFilter. \<not> Contains label f"
  shows "ReadDataFromDb D ed db key labelFilter typeFilter = ((False, None), ed, [])"
  using assms by (simp add: ReadDataFromDb_def isItemAllowed_iff)

theorem label_mismatch_skips_store_witness:
  "ReadDataFromDb exampleDecls Map.empty failingDb ''agent1/check/status/v1/agent'' [''agent2''] []
     = ((False, None), Map.empty, [])"
  by (rule label_mismatch_skips_store
        [where label = "''agent1''" and dataType = "[]" and params = "[]"
           and plugStatCfgRev = "''check/status/v1/''"])
     (simp_all add: exampleDecls_def exampleParseKey_def)

text \<open>
  C10. A key outside the status namespace that passes the label filter and the type
  filter, and whose data type equals none of the nine prefixes of the \<open>switch\<close>, gives
  found = true and no error; no event occurs (the store is not called) and the dump is
  the one before the call: no record is created or changed, also for a label that the
  dump does not hold yet.
\<close>

theorem unknown_type_leaves_dump:
  assumes "ParseKey D key = (label, dataType, params, plugStatCfgRev)"
      and "plugStatCfgRev \<noteq> StatusPrefix D"
      and "isItemAllowed label labelFilter"
      and "isItemAllowed dataType typeFilter"
      and "dataType \<notin> {InterfacePrefix D, IfStatePrefix D, IfErrorPrefix D, BdPrefix D,
                         BdStatePrefix D, BdErrPrefix D, FIBPrefix D, XconnectPrefix D,
                         RoutesPrefix D}"
  shows "ReadDataFromDb D ed db key labelFilter typeFilter = ((True, None), ed, [])"
  using assms by (simp add: ReadDataFromDb_def)

theorem unknown_type_leaves_dump_witness:
  "ReadDataFromDb exampleDecls Map.empty failingDb ''agent1/vpp/config/v1/acl/acl0''
      [''agent1''] [''acl'']
     = ((True, None), Map.empty, [])"
  by (rule unknown_type_leaves_dump
        [where label = "''agent1''" and dataType = "''vpp/config/v1/acl/''"
           and params = "[''acl0'']" and plugStatCfgRev = "[]"])
     (simp_all add: exampleDecls_def exampleParseKey_def isItemAllowed_def)

section \<open>The aggregator: keys without parameters\<close>

text \<open>
  C8. A key outside the status namespace that passes both filters, carries no parameter
  and has one of the eight data types whose decoder reads \<open>params[0]\<close>, is treated as
  malformed: \<open>ReadDataFromDb\<close> returns found = true and no error, the only event is the
  printed warning that names the key (so the store is not called), and nothing is merged:
  the label's record is stored back as it was (a fresh empty record for a label not seen
  before).
\<close>

theorem zero_params_is_malformed:
  assumes "ParseKey D key = (label, dataType, [], plugStatCfgRev)"
      and "plugStatCfgRev \<noteq> StatusPrefix D"
      and "isItemAllowed label labelFilter"
      and "isItemAllowed dataType typeFilter"
      and "dataType \<in> {InterfacePrefix D, IfStatePrefix D, IfErrorPrefix D, BdPrefix D,
                         BdStatePrefix D, BdErrPrefix D, FIBPrefix D, XconnectPrefix D}"
  shows "\<exists>what. ReadDataFromDb D ed db key labelFilter typeFilter =
           ((True, None), ed(label \<mapsto> recordFor D ed label), [Printed (warnInvalid what key)])"
proof -
  let ?ok = "\<lambda>what. ((True, None), ed(label \<mapsto> recordFor D ed label),
                       [Printed (warnInvalid what key)])"
  have "ReadDataFromDb D ed db key labelFilter typeFilter \<in> range ?ok"
    using assms
    by (auto simp add: ReadDataFromDb_def Let_def storeUnder_def readIfConfigFromDb_def
          readIfStateFromDb_def readInterfaceErrorFromDb_def readBdConfigFromDb_def
          readBdStateFromDb_def readBdErrorFromDb_def readFibFromDb_def readXconnectFromDb_def)
  then show ?thesis by auto
qed

theorem zero_params_is_malformed_witness:
  "\<exists>what. ReadDataFromDb exampleDecls Map.empty failingDb ''agent1/vpp/config/v1/interface/'' [] [] =
      ((True, None), [''agent1'' \<mapsto> recordFor exampleDecls Map.empty ''agent1''],
       [Printed (warnInvalid what ''agent1/vpp/config/v1/interface/'')])"
  by (rule zero_params_is_malformed [where plugStatCfgRev = "[]"
        and dataType = "''vpp/config/v1/interface/''"])
     (simp_all add: exampleDecls_def exampleParseKey_def isItemAllowed_def)


section \<open>The aggregator: values that do not decode\<close>

text \<open>
  C3, as stated, says that a decoding failure is not an error of the ingest. In the
  example store the bytes under the bridge domain key \<open>bd0\<close> do not unmarshal, and
  \<open>ReadDataFromDb\<close> returns an error for that key.
\<close>

theorem decode_failure_counterexample:
  "brokerGetValue exampleBroker ''agent1/vpp/config/v1/bd/bd0'' = ([0xFF], True, 48, None) \<and>
   Unmarshal exampleSerializer [0xFF] [] = ([], Some (DecodeError ''bad wire data'')) \<and>
   fst (ReadDataFromDb exampleDecls Map.empty exampleDb ''agent1/vpp/config/v1/bd/bd0'' [] []) =
     (True, Some (ErrorsNew
        ''Could not read from database, Key:agent1/vpp/config/v1/bd/bd0, errorbad wire data''))"
  by (simp add: ReadDataFromDb_def exampleDecls_def exampleParseKey_def isItemAllowed_def
        exampleDb_def exampleBroker_def exampleSerializer_def storeUnder_def
        readBdConfigFromDb_def readDataFromDb_def GetValue_def getValueProtoInternal_def Let_def)

text \<open>
  C3, amended. Take a key that passes the label filter and reaches a decoder (a status
  key; or a key that passes the type filter and is a routes key or has a parameter and one
  of the other eight data types). When the store holds bytes for the key and they do not
  unmarshal into the message of that decoder, \<open>GetValue\<close> returns found = false together
  with the serializer's error, and \<open>ReadDataFromDb\<close> returns found = true together with an
  error made by \<open>errors.New\<close> from the text \<open>Could not read from database, Key:\<close>, the
  key, \<open>, error\<close> and the message of the decoding error. The only event is the one call
  of the store, and no slot is written: the label's record is stored back as it was. On a
  store whose \<open>GetValue\<close> fails for the key, \<open>ReadDataFromDb\<close> returns in the very same
  way, with the message of the store's error in place of the decoding error's: a decoding
  failure is an error of the ingest just as a failure of the store is.
\<close>

theorem decode_failure_is_returned:
  assumes "ParseKey D key = (label, dataType, params, plugStatCfgRev)"
      and "isItemAllowed label labelFilter"
      and "distinctPrefixes D"
      and "plugStatCfgRev = StatusPrefix D \<or>
           isItemAllowed dataType typeFilter \<and>
           (dataType = RoutesPrefix D \<or>
            params \<noteq> [] \<and>
            dataType \<in> {InterfacePrefix D, IfStatePrefix D, IfErrorPrefix D, BdPrefix D,
                          BdStatePrefix D, BdErrPrefix D, FIBPrefix D, XconnectPrefix D})"
      and "brokerGetValue (broker db) key = (bs, True, r, None)"
      and "Unmarshal (serializer db) bs (newMsg D (targetShape D dataType plugStatCfgRev)) =
             (m, Some e)"
      and "brokerGetValue (broker db') key = (bs', fnd, r', Some e')"
  shows "GetValue db key (newMsg D (targetShape D dataType plugStatCfgRev)) =
           (False, 0, Some e, m, [StoreGet key]) \<and>
         ReadDataFromDb D ed db key labelFilter typeFilter =
           ((True, Some (ErrorsNew (''Could not read from database, Key:'' @ key @
                                     '', error'' @ Error e))),
            ed(label \<mapsto> recordFor D ed label), [StoreGet key]) \<and>
         ReadDataFromDb D ed db' key labelFilter typeFilter =
           ((True, Some (ErrorsNew (''Could not read from database, Key:'' @ key @
                                     '', error'' @ Error e'))),
            ed(label \<mapsto> recordFor D ed label), [StoreGet key])"
proof (intro conjI)
  show "GetValue db key (newMsg D (targetShape D dataType plugStatCfgRev)) =
           (False, 0, Some e, m, [StoreGet key])"
    using assms(5,6) by (simp add: GetValue_def getValueProtoInternal_def)
next
  show "ReadDataFromDb D ed db' key labelFilter typeFilter =
           ((True, Some (ErrorsNew (''Could not read from database, Key:'' @ key @
                                     '', error'' @ Error e'))),
            ed(label \<mapsto> recordFor D ed label), [StoreGet key])"
    by (rule ingest_get_error [OF assms(1-4,7)])
next
  note dec = decoders_decode_error [OF assms(5)]
  note later = distinctPrefixes_later [OF assms(3)]
  show "ReadDataFromDb D ed db key labelFilter typeFilter =
           ((True, Some (ErrorsNew (''Could not read from database, Key:'' @ key @
                                     '', error'' @ Error e))),
            ed(label \<mapsto> recordFor D ed label), [StoreGet key])"
  proof (cases "plugStatCfgRev = StatusPrefix D")
    case True
    with assms(6) have "Unmarshal (serializer db) bs (newMsg D Msg_AgentStatus) = (m, Some e)"
      by (simp add: targetShape_def)
    with True assms(1,2) show ?thesis
      by (simp add: dispatch_status storeUnder_def dec)
  next
    case False
    note typed = dispatch_typed [OF assms(1) False assms(2) _ assms(3)]
    from False assms(4) have allowed: "isItemAllowed dataType typeFilter"
      and shape: "dataType = RoutesPrefix D \<or> params \<noteq> [] \<and>
            dataType \<in> {InterfacePrefix D, IfStatePrefix D, IfErrorPrefix D, BdPrefix D,
                          BdStatePrefix D, BdErrPrefix D, FIBPrefix D, XconnectPrefix D}"
      by simp_all
    from shape consider
        (routes) "dataType = RoutesPrefix D"
      | (ifc) "params \<noteq> []" "dataType = InterfacePrefix D"
      | (ifs) "params \<noteq> []" "dataType = IfStatePrefix D"
      | (ife) "params \<noteq> []" "dataType = IfErrorPrefix D"
      | (bdc) "params \<noteq> []" "dataType = BdPrefix D"
      | (bds) "params \<noteq> []" "dataType = BdStatePrefix D"
      | (bde) "params \<noteq> []" "dataType = BdErrPrefix D"
      | (fib) "params \<noteq> []" "dataType = FIBPrefix D"
      | (xc) "params \<noteq> []" "dataType = XconnectPrefix D"
      by auto
    then show ?thesis
    proof cases
      case routes
      with assms(6) False later show ?thesis
        by (simp add: targetShape_def typed(9) [OF allowed] storeUnder_def dec)
    next
      case ifc
      with assms(6) False later show ?thesis
        by (simp add: targetShape_def typed(1) [OF allowed] storeUnder_def dec)
    next
      case ifs
      with assms(6) False later show ?thesis
        by (simp add: targetShape_def typed(2) [OF allowed] storeUnder_def dec)
    next
      case ife
      with assms(6) False later show ?thesis
        by (simp add: targetShape_def typed(3) [OF allowed] storeUnder_def dec)
    next
      case bdc
      with assms(6) False later show ?thesis
        by (simp add: targetShape_def typed(4) [OF allowed] storeUnder_def dec)
    next
      case bds
      with assms(6) False later show ?thesis
        by (simp add: targetShape_def typed(5) [OF allowed] storeUnder_def dec)
    next
      case bde
      with assms(6) False later show ?thesis
        by (simp add: targetShape_def typed(6) [OF allowed] storeUnder_def dec)
    next
      case fib
      with assms(6) False later show ?thesis
        by (simp add: targetShape_def typed(7) [OF allowed] storeUnder_def dec)
    next
      case xc
      with assms(6) False later show ?thesis
        by (simp add: targetShape_def typed(8) [OF allowed] storeUnder_def dec)
    qed
  qed
qed


theorem decode_failure_is_returned_witness:
  "GetValue exampleDb ''agent1/vpp/config/v1/bd/bd0''
       (newMsg exampleDecls Msg_BridgeDomains_BridgeDomain) =
     (False, 0, Some (DecodeError ''bad wire data''), [],
      [StoreGet ''agent1/vpp/config/v1/bd/bd0'']) \<and>
   ReadDataFromDb exampleDecls Map.empty exampleDb ''agent1/vpp/config/v1/bd/bd0'' [] [] =
     ((True, Some (ErrorsNew
         ''Could not read from database, Key:agent1/vpp/config/v1/bd/bd0, errorbad wire data'')),
      [''agent1'' \<mapsto> newVppDataRecord exampleDecls],
      [StoreGet ''agent1/vpp/config/v1/bd/bd0'']) \<and>
   ReadDataFromDb exampleDecls Map.empty failingDb ''agent1/vpp/config/v1/bd/bd0'' [] [] =
     ((True, Some (ErrorsNew
         ''Could not read from database, Key:agent1/vpp/config/v1/bd/bd0, errorstore unavailable'')),
      [''agent1'' \<mapsto> newVppDataRecord exampleDecls],
      [StoreGet ''agent1/vpp/config/v1/bd/bd0''])"
proof -
  have "distinctPrefixes exampleDecls"
    by (simp add: distinctPrefixes_def exampleDecls_def)
  moreover have "ParseKey exampleDecls ''agent1/vpp/config/v1/bd/bd0'' =
                   (''agent1'', BdPrefix exampleDecls, [''bd0''], [])"
    and "[] \<noteq> StatusPrefix exampleDecls"
    and "targetShape exampleDecls (BdPrefix exampleDecls) [] = Msg_BridgeDomains_BridgeDomain"
    by (simp_all add: exampleDecls_def exampleParseKey_def targetShape_def)
  moreover have "brokerGetValue (broker exampleDb) ''agent1/vpp/config/v1/bd/bd0'' =
                   ([0xFF], True, 48, None)"
    and "brokerGetValue (broker failingDb) ''agent1/vpp/config/v1/bd/bd0'' =
                   ([], False, 0, Some (StoreError ''store unavailable''))"
    by (simp_all add: exampleDb_def exampleBroker_def failingDb_def failingBroker_def)
  moreover have "Unmarshal (serializer exampleDb) [0xFF]
                   (newMsg exampleDecls Msg_BridgeDomains_BridgeDomain) =
                   ([], Some (DecodeError ''bad wire data''))"
    by (simp add: exampleDb_def exampleSerializer_def exampleDecls_def)
  ultimately show ?thesis
    using decode_failure_is_returned
      [where D = exampleDecls and db = exampleDb and db' = failingDb
         and key = "''agent1/vpp/config/v1/bd/bd0''" and label = "''agent1''"
         and dataType = "BdPrefix exampleDecls" and params = "[''bd0'']"
         and plugStatCfgRev = "[]" and labelFilter = "[]" and typeFilter = "[]"
         and ed = Map.empty and bs = "[0xFF]" and r = 48 and m = "[]"
         and e = "DecodeError ''bad wire data''"
         and bs' = "[]" and fnd = False and r' = 0 and e' = "StoreError ''store unavailable''"]
    by (simp add: isItemAllowed_def recordFor_def)
qed

section \<open>The aggregator: keys absent from the store\<close>

text \<open>
  C4, as stated, says that the ingest of every absent key that passes the filters reports
  the key as not found. A key whose data type no case of the \<open>switch\<close> matches is
  absent from the example store and passes the (empty) filters, and its ingest reports
  nothing: there is no event at all.
\<close>

theorem absent_key_counterexample:
  "brokerGetValue exampleBroker ''agent1/vpp/config/v1/acl/acl0'' = ([], False, 0, None) \<and>
   isItemAllowed ''agent1'' [] \<and> isItemAllowed ''vpp/config/v1/acl/'' [] \<and>
   ReadDataFromDb exampleDecls Map.empty exampleDb ''agent1/vpp/config/v1/acl/acl0'' [] [] =
     ((True, None), Map.empty, [])"
  by (simp add: ReadDataFromDb_def exampleDecls_def exampleParseKey_def isItemAllowed_def
        exampleDb_def exampleBroker_def Let_def)

text \<open>
  C4, amended. For a key that the store does not hold, \<open>GetValue\<close> returns found = false
  and no error and leaves the request object as it was. \<open>ReadDataFromDb\<close>, for such a key
  that passes the label filter and reaches a decoder that reads the store (a status key;
  or a key that passes the type filter and is a routes key or has a parameter and one of
  the other eight data types), returns found = true and no error, calls the store once,
  prints the not-found warning, and merges nothing: the label's record is stored back as
  it was (a fresh empty record for a label not seen before).
\<close>

theorem absent_key_is_reported:
  assumes "ParseKey D key = (label, dataType, params, plugStatCfgRev)"
      and "isItemAllowed label labelFilter"
      and "distinctPrefixes D"
      and "plugStatCfgRev = StatusPrefix D \<or>
           isItemAllowed dataType typeFilter \<and>
           (dataType = RoutesPrefix D \<or>
            params \<noteq> [] \<and>
            dataType \<in> {InterfacePrefix D, IfStatePrefix D, IfErrorPrefix D, BdPrefix D,
                          BdStatePrefix D, BdErrPrefix D, FIBPrefix D, XconnectPrefix D})"
      and "brokerGetValue (broker db) key = (bs, False, r, None)"
  shows "GetValue db key obj = (False, 0, None, obj, [StoreGet key]) \<and>
         ReadDataFromDb D ed db key labelFilter typeFilter =
           ((True, None), ed(label \<mapsto> recordFor D ed label),
            [StoreGet key, Printed (warnNotFound key)])"
proof
  show "GetValue db key obj = (False, 0, None, obj, [StoreGet key])"
    using assms(5) by (simp add: GetValue_def getValueProtoInternal_def)
next
  note dec = decoders_absent [OF assms(5)]
  show "ReadDataFromDb D ed db key labelFilter typeFilter =
           ((True, None), ed(label \<mapsto> recordFor D ed label),
            [StoreGet key, Printed (warnNotFound key)])"
  proof (cases "plugStatCfgRev = StatusPrefix D")
    case True
    with assms(1,2) show ?thesis
      by (simp add: dispatch_status storeUnder_def dec)
  next
    case False
    note typed = dispatch_typed [OF assms(1) False assms(2) _ assms(3)]
    from False assms(4) have allowed: "isItemAllowed dataType typeFilter"
      and shape: "dataType = RoutesPrefix D \<or> params \<noteq> [] \<and>
            dataType \<in> {InterfacePrefix D, IfStatePrefix D, IfErrorPrefix D, BdPrefix D,
                          BdStatePrefix D, BdErrPrefix D, FIBPrefix D, XconnectPrefix D}"
      by simp_all
    from shape show ?thesis
      using typed [OF allowed] by (auto simp add: storeUnder_def dec)
  qed
qed

theorem absent_key_is_reported_witness:
  "GetValue exampleDb ''agent1/vpp/config/v1/bd/bd1'' [] =
     (False, 0, None, [], [StoreGet ''agent1/vpp/config/v1/bd/bd1'']) \<and>
   ReadDataFromDb exampleDecls Map.empty exampleDb ''agent1/vpp/config/v1/bd/bd1'' [] [] =
     ((True, None), [''agent1'' \<mapsto> recordFor exampleDecls Map.empty ''agent1''],
      [StoreGet ''agent1/vpp/config/v1/bd/bd1'',
       Printed (warnNotFound ''agent1/vpp/config/v1/bd/bd1'')])"
  by (rule absent_key_is_reported
        [where dataType = "''vpp/config/v1/bd/''" and params = "[''bd1'']"
           and plugStatCfgRev = "[]" and bs = "[]" and r = 0])
     (simp_all add: exampleDecls_def exampleParseKey_def isItemAllowed_def distinctPrefixes_def
        exampleDb_def exampleBroker_def)

section \<open>The aggregator: status keys\<close>

text \<open>
  C9. For a key of the status namespace that passes the label filter and whose value is
  found and decodes, the agent status is stored, with the revision and the key, in the
  \<open>Status\<close> map of the label's record: under \<open>params[0]\<close> when the key has a parameter, and
  under \<open>"Agent"\<close> when it has none. The key without parameters is read from the store
  like any other (the only event is the call of the store, no warning), and the type
  filter plays no part.
\<close>

theorem status_key_identifier:
  assumes "ParseKey D key = (label, dataType, params, StatusPrefix D)"
      and "isItemAllowed label labelFilter"
      and "brokerGetValue (broker db) key = (bs, True, r, None)"
      and "Unmarshal (serializer db) bs (newMsg D Msg_AgentStatus) = (sts, None)"
  shows "ReadDataFromDb D ed db key labelFilter typeFilter =
           ((True, None),
            ed(label \<mapsto> (recordFor D ed label)
               \<lparr>Status := (Status (recordFor D ed label))
                  ((if params = [] then ''Agent'' else params ! 0) \<mapsto>
                   \<lparr>VppStatusWithMD.VppMetaData = \<lparr>Rev = r, Key = key\<rparr>,
                    AgentStatus = sts\<rparr>)\<rparr>),
            [StoreGet key])"
  using assms(1,2)
  by (simp add: dispatch_status storeUnder_def readStatusFromDb_def Let_def stsIDAgent_def
        readDataFromDb_found [OF assms(3,4)])

theorem status_key_identifier_witness:
  "ReadDataFromDb exampleDecls Map.empty exampleDb ''agent1/check/status/v1/agent''
       [''agent1''] [''interface''] =
     ((True, None),
      [''agent1'' \<mapsto> (newVppDataRecord exampleDecls)
         \<lparr>Status := [''Agent'' \<mapsto>
             \<lparr>VppStatusWithMD.VppMetaData =
                \<lparr>Rev = 46, Key = ''agent1/check/status/v1/agent''\<rparr>,
              AgentStatus = [6]\<rparr>]\<rparr>],
      [StoreGet ''agent1/check/status/v1/agent''])"
proof -
  have "ParseKey exampleDecls ''agent1/check/status/v1/agent'' =
          (''agent1'', [], [], StatusPrefix exampleDecls)"
    by (simp add: exampleDecls_def exampleParseKey_def)
  moreover have "isItemAllowed ''agent1'' [''agent1'']"
    by (simp add: isItemAllowed_def)
  moreover have "brokerGetValue (broker exampleDb) ''agent1/check/status/v1/agent'' =
                   ([6], True, 46, None)"
    by (simp add: exampleDb_def exampleBroker_def)
  moreover have "Unmarshal (serializer exampleDb) [6] (newMsg exampleDecls Msg_AgentStatus) =
                   ([6], None)"
    by (simp add: exampleDb_def exampleSerializer_def)
  ultimately show ?thesis
    using status_key_identifier
      [where D = exampleDecls and db = exampleDb and key = "''agent1/check/status/v1/agent''"
         and label = "''agent1''" and dataType = "[]" and params = "[]"
         and labelFilter = "[''agent1'']" and typeFilter = "[''interface'']"
         and bs = "[6]" and r = 46 and sts = "[6]" and ed = Map.empty]
    by (simp add: recordFor_def newVppDataRecord_def)
qed

section \<open>The aggregator: configuration and state of one interface\<close>

text \<open>
  C1. Take a configuration key and a state key of one label and one interface name, both
  passing the filters, found and decoded. Ingesting one and then the other succeeds in
  either order, and afterwards the label's record holds, under the name, an entry with
  the \<open>Config\<close> slot filled from the configuration key (its revision, its key, its message)
  and the \<open>State\<close> slot filled from the state key. Writing the configuration leaves the
  \<open>State\<close> slot of the entry as it was and writing the state leaves the \<open>Config\<close> slot as it
  was. The dump after configuration-then-state equals the dump after
  state-then-configuration.
\<close>

theorem config_and_state_coexist:
  assumes "distinctPrefixes D"
      and "ParseKey D kc = (label, InterfacePrefix D, pc, sc)" and "sc \<noteq> StatusPrefix D"
      and "ParseKey D ks = (label, IfStatePrefix D, ps, ss)" and "ss \<noteq> StatusPrefix D"
      and "pc \<noteq> []" and "ps \<noteq> []" and "pc ! 0 = name" and "ps ! 0 = name"
      and "isItemAllowed label lf"
      and "isItemAllowed (InterfacePrefix D) tf" and "isItemAllowed (IfStatePrefix D) tf"
      and "brokerGetValue (broker db) kc = (bc, True, rc, None)"
      and "Unmarshal (serializer db) bc (newMsg D Msg_Interfaces_Interface) = (mc, None)"
      and "brokerGetValue (broker db) ks = (bs, True, rs, None)"
      and "Unmarshal (serializer db) bs (newMsg D Msg_InterfacesState_Interface) = (ms, None)"
  shows "let c = ReadDataFromDb D ed db kc lf tf;
             s = ReadDataFromDb D ed db ks lf tf;
             cs = ReadDataFromDb D (fst (snd c)) db ks lf tf;
             sc' = ReadDataFromDb D (fst (snd s)) db kc lf tf
         in
         fst c = (True, None) \<and> fst cs = (True, None) \<and>
         fst s = (True, None) \<and> fst sc' = (True, None) \<and>
         (\<exists>vd. fst (snd cs) label = Some vd \<and>
               Interfaces vd name =
                 Some \<lparr>InterfaceWithMD.Config =
                         Some \<lparr>IfConfigWithMD.Metadata = \<lparr>Rev = rc, Key = kc\<rparr>,
                               Interface = mc\<rparr>,
                       InterfaceWithMD.State =
                         Some \<lparr>IfStateWithMD.Metadata = \<lparr>Rev = rs, Key = ks\<rparr>,
                               InterfaceState = ms\<rparr>\<rparr>) \<and>
         InterfaceWithMD.State (indexInterfaces (Interfaces (recordFor D (fst (snd c)) label)) name) =
           InterfaceWithMD.State (indexInterfaces (Interfaces (recordFor D ed label)) name) \<and>
         InterfaceWithMD.Config (indexInterfaces (Interfaces (recordFor D (fst (snd s)) label)) name) =
           InterfaceWithMD.Config (indexInterfaces (Interfaces (recordFor D ed label)) name) \<and>
         fst (snd cs) = fst (snd sc')"
proof -
  note cfg = ingest_ifconfig_found [OF assms(2,3,10,11,1,6,13,14)]
  note st = ingest_ifstate_found [OF assms(4,5,10,12,1,7,15,16)]
  show ?thesis
    by (simp add: Let_def cfg st assms(8,9) indexInterfaces_def)
qed


theorem config_and_state_coexist_witness:
  "(\<exists>vd. fst (snd (ReadDataFromDb exampleDecls
                  (fst (snd (ReadDataFromDb exampleDecls Map.empty exampleDb
                               ''agent1/vpp/config/v1/interface/eth0'' [] [])))
                  exampleDb ''agent1/vpp/status/v1/interface/eth0'' [] [])) ''agent1'' = Some vd \<and>
         Interfaces vd ''eth0'' =
           Some \<lparr>InterfaceWithMD.Config =
                   Some \<lparr>IfConfigWithMD.Metadata =
                           \<lparr>Rev = 42, Key = ''agent1/vpp/config/v1/interface/eth0''\<rparr>,
                         Interface = [1, 2]\<rparr>,
                 InterfaceWithMD.State =
                   Some \<lparr>IfStateWithMD.Metadata =
                           \<lparr>Rev = 43, Key = ''agent1/vpp/status/v1/interface/eth0''\<rparr>,
                         InterfaceState = [3]\<rparr>\<rparr>) \<and>
   fst (snd (ReadDataFromDb exampleDecls
               (fst (snd (ReadDataFromDb exampleDecls Map.empty exampleDb
                            ''agent1/vpp/config/v1/interface/eth0'' [] [])))
               exampleDb ''agent1/vpp/status/v1/interface/eth0'' [] [])) =
   fst (snd (ReadDataFromDb exampleDecls
               (fst (snd (ReadDataFromDb exampleDecls Map.empty exampleDb
                            ''agent1/vpp/status/v1/interface/eth0'' [] [])))
               exampleDb ''agent1/vpp/config/v1/interface/eth0'' [] []))"
proof -
  have "distinctPrefixes exampleDecls"
    by (simp add: distinctPrefixes_def exampleDecls_def)
  moreover have "ParseKey exampleDecls ''agent1/vpp/config/v1/interface/eth0'' =
                   (''agent1'', InterfacePrefix exampleDecls, [''eth0''], [])"
    and "ParseKey exampleDecls ''agent1/vpp/status/v1/interface/eth0'' =
                   (''agent1'', IfStatePrefix exampleDecls, [''eth0''], [])"
    and "[] \<noteq> StatusPrefix exampleDecls"
    by (simp_all add: exampleDecls_def exampleParseKey_def)
  moreover have "brokerGetValue (broker exampleDb) ''agent1/vpp/config/v1/interface/eth0'' =
                   ([1, 2], True, 42, None)"
    and "brokerGetValue (broker exampleDb) ''agent1/vpp/status/v1/interface/eth0'' =
                   ([3], True, 43, None)"
    by (simp_all add: exampleDb_def exampleBroker_def)
  moreover have "Unmarshal (serializer exampleDb) [1, 2]
                   (newMsg exampleDecls Msg_Interfaces_Interface) = ([1, 2], None)"
    and "Unmarshal (serializer exampleDb) [3]
                   (newMsg exampleDecls Msg_InterfacesState_Interface) = ([3], None)"
    by (simp_all add: exampleDb_def exampleSerializer_def)
  ultimately show ?thesis
    using config_and_state_coexist
      [where D = exampleDecls and db = exampleDb and label = "''agent1''" and name = "''eth0''"
         and kc = "''agent1/vpp/config/v1/interface/eth0''"
         and ks = "''agent1/vpp/status/v1/interface/eth0''"
         and pc = "[''eth0'']" and ps = "[''eth0'']" and sc = "[]" and ss = "[]"
         and lf = "[]" and tf = "[]" and ed = Map.empty
         and bc = "[1, 2]" and rc = 42 and mc = "[1, 2]" and bs = "[3]" and rs = 43 and ms = "[3]"]
    by (auto simp add: Let_def isItemAllowed_def)
qed

section \<open>The aggregator: error records\<close>

text \<open>
  C7. Take two error keys of one label (each an interface error key or a bridge domain
  error key, with a parameter), both passing the filters, found and decoded, and ingest
  the first and then the second. Both calls succeed. The error lists of the label are kept
  per name (\<open>params[0]\<close>): afterwards the list under every name is the list from before,
  followed by the first message if the first key has this name, followed by the second
  message if the second key has this name. So two items are appended, in the order of
  ingestion, nothing that was there is removed, and equal items are not merged.
\<close>

theorem error_records_accumulate:
  assumes "distinctPrefixes D"
      and "ParseKey D ka = (label, ta, pa, sa)" and "sa \<noteq> StatusPrefix D"
      and "ParseKey D kb = (label, tb, pb, sb)" and "sb \<noteq> StatusPrefix D"
      and "ta \<in> {IfErrorPrefix D, BdErrPrefix D}" and "tb \<in> {IfErrorPrefix D, BdErrPrefix D}"
      and "pa \<noteq> []" and "pb \<noteq> []"
      and "isItemAllowed label lf" and "isItemAllowed ta tf" and "isItemAllowed tb tf"
      and "brokerGetValue (broker db) ka = (ba, True, ra, None)"
      and "Unmarshal (serializer db) ba
             (newMsg D (if ta = IfErrorPrefix D then Msg_InterfaceErrors_Interface
                        else Msg_BridgeDomainErrors_BridgeDomain)) = (ma, None)"
      and "brokerGetValue (broker db) kb = (bb, True, rb, None)"
      and "Unmarshal (serializer db) bb
             (newMsg D (if tb = IfErrorPrefix D then Msg_InterfaceErrors_Interface
                        else Msg_BridgeDomainErrors_BridgeDomain)) = (mb, None)"
  shows "let Ra = ReadDataFromDb D ed db ka lf tf;
             Rb = ReadDataFromDb D (fst (snd Ra)) db kb lf tf;
             old = recordFor D ed label;
             new = recordFor D (fst (snd Rb)) label
         in
         fst Ra = (True, None) \<and> fst Rb = (True, None) \<and>
         fst (snd Rb) label = Some new \<and>
         (\<forall>n. InterfaceErrorList (indexInterfaceErrors (InterfaceErrors new) n) =
                InterfaceErrorList (indexInterfaceErrors (InterfaceErrors old) n)
                @ (if ta = IfErrorPrefix D \<and> n = pa ! 0 then [ma] else [])
                @ (if tb = IfErrorPrefix D \<and> n = pb ! 0 then [mb] else [])) \<and>
         (\<forall>n. BdErrorList (indexBridgeDomainErrors (BridgeDomainErrors new) n) =
                BdErrorList (indexBridgeDomainErrors (BridgeDomainErrors old) n)
                @ (if ta = BdErrPrefix D \<and> n = pa ! 0 then [ma] else [])
                @ (if tb = BdErrPrefix D \<and> n = pb ! 0 then [mb] else []))"
proof -
  have ne: "BdErrPrefix D \<noteq> IfErrorPrefix D" "IfErrorPrefix D \<noteq> BdErrPrefix D"
    using distinctPrefixes_later [OF assms(1)] by auto
  note if1 = ingest_iferror_found [OF assms(2,3,10,11,1) _ assms(8,13)]
  note bd1 = ingest_bderror_found [OF assms(2,3,10,11,1) _ assms(8,13)]
  note if2 = ingest_iferror_found [OF assms(4,5,10,12,1) _ assms(9,15)]
  note bd2 = ingest_bderror_found [OF assms(4,5,10,12,1) _ assms(9,15)]
  consider (ii) "ta = IfErrorPrefix D" "tb = IfErrorPrefix D"
    | (ib) "ta = IfErrorPrefix D" "tb = BdErrPrefix D"
    | (bi) "ta = BdErrPrefix D" "tb = IfErrorPrefix D"
    | (bothbd) "ta = BdErrPrefix D" "tb = BdErrPrefix D"
    using assms(6,7) by auto
  then show ?thesis
  proof cases
    case ii
    with assms(14,16) show ?thesis
      by (simp add: Let_def if1 if2 ne indexInterfaceErrors_def)
  next
    case ib
    with assms(14,16) ne show ?thesis
      by (simp add: Let_def if1 bd2 indexInterfaceErrors_def indexBridgeDomainErrors_def)
  next
    case bi
    with assms(14,16) ne show ?thesis
      by (simp add: Let_def bd1 if2 indexInterfaceErrors_def indexBridgeDomainErrors_def)
  next
    case bothbd
    with assms(14,16) ne show ?thesis
      by (simp add: Let_def bd1 bd2 indexBridgeDomainErrors_def)
  qed
qed

theorem error_records_accumulate_witness:
  "InterfaceErrorList (indexInterfaceErrors (InterfaceErrors (recordFor exampleDecls
      (fst (snd (ReadDataFromDb exampleDecls
                   (fst (snd (ReadDataFromDb exampleDecls Map.empty exampleDb
                                ''agent1/vpp/status/v1/interface/error/eth0'' [] [])))
                   exampleDb ''agent1/vpp/status/v1/interface/error/eth0/rx'' [] [])))
      ''agent1'')) ''eth0'') = [4] # [8] # []"
proof -
  have "distinctPrefixes exampleDecls"
    by (simp add: distinctPrefixes_def exampleDecls_def)
  moreover have "ParseKey exampleDecls ''agent1/vpp/status/v1/interface/error/eth0'' =
                   (''agent1'', IfErrorPrefix exampleDecls, [''eth0''], [])"
    and "ParseKey exampleDecls ''agent1/vpp/status/v1/interface/error/eth0/rx'' =
                   (''agent1'', IfErrorPrefix exampleDecls, [''eth0'', ''rx''], [])"
    and "[] \<noteq> StatusPrefix exampleDecls"
    by (simp_all add: exampleDecls_def exampleParseKey_def)
  moreover have "brokerGetValue (broker exampleDb) ''agent1/vpp/status/v1/interface/error/eth0'' =
                   ([4], True, 44, None)"
    and "brokerGetValue (broker exampleDb) ''agent1/vpp/status/v1/interface/error/eth0/rx'' =
                   ([8], True, 49, None)"
    by (simp_all add: exampleDb_def exampleBroker_def)
  moreover have "Unmarshal (serializer exampleDb) [4]
                   (newMsg exampleDecls Msg_InterfaceErrors_Interface) = ([4], None)"
    and "Unmarshal (serializer exampleDb) [8]
                   (newMsg exampleDecls Msg_InterfaceErrors_Interface) = ([8], None)"
    by (simp_all add: exampleDb_def exampleSerializer_def)
  ultimately show ?thesis
    using error_records_accumulate
      [where D = exampleDecls and db = exampleDb and label = "''agent1''"
         and ka = "''agent1/vpp/status/v1/interface/error/eth0''"
         and kb = "''agent1/vpp/status/v1/interface/error/eth0/rx''"
         and ta = "IfErrorPrefix exampleDecls" and tb = "IfErrorPrefix exampleDecls"
         and pa = "[''eth0'']" and pb = "[''eth0'', ''rx'']" and sa = "[]" and sb = "[]"
         and lf = "[]" and tf = "[]" and ed = Map.empty
         and ba = "[4]" and ra = 44 and ma = "[4]" and bb = "[8]" and rb = 49 and mb = "[8]"]
    by (auto simp add: Let_def isItemAllowed_def recordFor_def newVppDataRecord_def
          indexInterfaceErrors_def)
qed

section \<open>The aggregator: placeholder records\<close>

text \<open>
  C6, as stated, says that \<open>CreateEmptyRecord\<close> leaves the record of a label alone when
  the dump holds one already. After ingesting the configuration of interface \<open>eth0\<close> the
  record of \<open>agent1\<close> holds that interface; \<open>CreateEmptyRecord\<close> for a key of the same label
  replaces the record by the empty one.
\<close>

theorem create_empty_record_counterexample:
  "fst (snd (ReadDataFromDb exampleDecls Map.empty exampleDb
               ''agent1/vpp/config/v1/interface/eth0'' [] [])) ''agent1'' \<noteq> None \<and>
   CreateEmptyRecord exampleDecls
     (fst (snd (ReadDataFromDb exampleDecls Map.empty exampleDb
                  ''agent1/vpp/config/v1/interface/eth0'' [] [])))
     ''agent1/vpp/config/v1/interface/eth0'' ''agent1'' \<noteq>
   fst (snd (ReadDataFromDb exampleDecls Map.empty exampleDb
               ''agent1/vpp/config/v1/interface/eth0'' [] [])) ''agent1''"
  by (simp add: ReadDataFromDb_def CreateEmptyRecord_def exampleDecls_def exampleParseKey_def
        isItemAllowed_def exampleDb_def exampleBroker_def exampleSerializer_def storeUnder_def
        readIfConfigFromDb_def readDataFromDb_def GetValue_def getValueProtoInternal_def Let_def
        recordFor_def newVppDataRecord_def not_sym [OF map_upd_nonempty])

text \<open>
  C6, amended. \<open>CreateEmptyRecord\<close> stores a fresh empty record under the label of the
  key, whether or not the dump holds a record for the label; the records of all other
  labels are unchanged, and calling it a second time with the same key changes nothing
  more.
\<close>

theorem create_empty_record_resets:
  assumes "ParseKey D key = (label, dataType, params, plugStatCfgRev)"
  shows "CreateEmptyRecord D ed key label = Some (newVppDataRecord D) \<and>
         (\<forall>l. l \<noteq> label \<longrightarrow> CreateEmptyRecord D ed key l = ed l) \<and>
         CreateEmptyRecord D (CreateEmptyRecord D ed key) key = CreateEmptyRecord D ed key"
  using assms by (simp add: CreateEmptyRecord_def)

theorem create_empty_record_resets_witness:
  "CreateEmptyRecord exampleDecls
     [''agent2'' \<mapsto> (newVppDataRecord exampleDecls)\<lparr>ShowEtcd := True\<rparr>]
     ''agent1/vpp/config/v1/interface/eth0'' ''agent1'' = Some (newVppDataRecord exampleDecls) \<and>
   CreateEmptyRecord exampleDecls
     [''agent2'' \<mapsto> (newVppDataRecord exampleDecls)\<lparr>ShowEtcd := True\<rparr>]
     ''agent1/vpp/config/v1/interface/eth0'' ''agent2'' =
     Some ((newVppDataRecord exampleDecls)\<lparr>ShowEtcd := True\<rparr>) \<and>
   CreateEmptyRecord exampleDecls
     (CreateEmptyRecord exampleDecls
        [''agent2'' \<mapsto> (newVppDataRecord exampleDecls)\<lparr>ShowEtcd := True\<rparr>]
        ''agent1/vpp/config/v1/interface/eth0'')
     ''agent1/vpp/config/v1/interface/eth0'' =
   CreateEmptyRecord exampleDecls
     [''agent2'' \<mapsto> (newVppDataRecord exampleDecls)\<lparr>ShowEtcd := True\<rparr>]
     ''agent1/vpp/config/v1/interface/eth0''"
proof -
  have "ParseKey exampleDecls ''agent1/vpp/config/v1/interface/eth0'' =
          (''agent1'', ''vpp/config/v1/interface/'', [''eth0''], [])"
    by (simp add: exampleDecls_def exampleParseKey_def)
  from create_empty_record_resets [OF this] show ?thesis
    by simp
qed

end
